theory Spec2Isabelle
  imports Main
begin

section \<open>The date picker of \<open>src/views/landingPage/datePicker2.tsx\<close>\<close>

text \<open>
  The component \<open>DatePicker2\<close> keeps two React state cells, \<open>error\<close> and \<open>cleared\<close>, and
  has three event handlers: \<open>handleChange\<close>, \<open>handleClear\<close> and the \<open>onClick\<close> of the
  \<open>OutsideClickHandler\<close> around the alert. The model passes the two cells explicitly,
  together with the part of the JavaScript environment the handlers touch: a logical clock
  in milliseconds, the pending \<open>setTimeout\<close> callbacks, and the trace of the calls made
  to the outside (the caller's callbacks, the event object, the logger).
\<close>

subsection \<open>JavaScript dates\<close>

text \<open>
  A JavaScript \<open>Date\<close> holds a time value: either \<open>NaN\<close> (an invalid date) or a whole
  number of milliseconds since the epoch, at most 8640000000000000 in absolute value. Such
  numbers are exact in a double, so the time value is an \<open>int\<close> here. \<open>new Date(v)\<close>
  clips a number outside that range to \<open>NaN\<close>.
\<close>

datatype Date = InvalidDate | TimeValue int

definition new_Date :: "int \<Rightarrow> Date" where
  "new_Date v = (if \<bar>v\<bar> \<le> 8640000000000000 then TimeValue v else InvalidDate)"

text \<open>
  \<open>a < b\<close> and \<open>a > b\<close> on two \<open>Date\<close> objects compare their time values as numbers;
  a comparison with \<open>NaN\<close> is false either way.
\<close>

fun date_lt :: "Date \<Rightarrow> Date \<Rightarrow> bool" where
  "date_lt (TimeValue a) (TimeValue b) = (a < b)"
| "date_lt _ _ = False"

fun date_gt :: "Date \<Rightarrow> Date \<Rightarrow> bool" where
  "date_gt (TimeValue a) (TimeValue b) = (a > b)"
| "date_gt _ _ = False"

text \<open>The dates JavaScript can represent: a time value within the range, not \<open>NaN\<close>.\<close>

fun representable :: "Date \<Rightarrow> bool" where
  "representable (TimeValue t) = (\<bar>t\<bar> \<le> 8640000000000000)"
| "representable InvalidDate = False"

text \<open>\<open>arg instanceof Date\<close> for an argument of type \<open>Date | null\<close> (\<open>None\<close> is \<open>null\<close>).\<close>

fun instanceof_Date :: "Date option \<Rightarrow> bool" where
  "instanceof_Date (Some _) = True"
| "instanceof_Date None = False"

text \<open>The nullish coalescing operator \<open>x ?? y\<close>, with \<open>None\<close> for \<open>undefined\<close>.\<close>

fun nullish :: "'a option \<Rightarrow> 'a \<Rightarrow> 'a" where
  "nullish (Some x) y = x"
| "nullish None y = y"

subsection \<open>Props, state and effects\<close>

text \<open>
  \<open>DatePickerProps\<close>. A callback is opaque to the component, which can only call it; the
  calls are recorded in the trace, and the prop itself records whether the caller supplied
  it (\<open>onClear\<close> is required, \<open>onChange\<close> is optional, \<open>None\<close> being \<open>undefined\<close>).
\<close>

record DatePickerProps =
  onClear :: unit
  onChange :: "unit option"
  label :: string
  minDate :: "Date option"
  maxDate :: "Date option"

text \<open>The argument of \<open>onClear\<close> has type \<open>object | null | undefined\<close>.\<close>

datatype clear_value = Undefined | Null | Object

text \<open>
  What a handler does to the outside, in order. The argument of \<open>onChange\<close> has type
  \<open>Date | null\<close>: \<open>None\<close> is \<open>null\<close>.
\<close>

datatype effect =
    PreventDefault
  | OnClear clear_value
  | OnChange "Date option"
  | LoggerWarning string

datatype exception = AssertionError string

datatype outcome = Returned | Threw exception

record picker =
  error :: bool
  cleared :: bool
  now :: nat
  timers :: "nat list"
  effects :: "effect list"

text \<open>Both cells start as \<open>useState(false)\<close>; nothing is pending.\<close>

definition mount :: picker where
  "mount = \<lparr>error = False, cleared = False, now = 0, timers = [], effects = []\<rparr>"

definition emit :: "effect \<Rightarrow> picker \<Rightarrow> picker" where
  "emit e s = s\<lparr>effects := effects s @ [e]\<rparr>"

text \<open>
  \<open>setTimeout(f, ms)\<close>: every callback the component schedules is the same function
  (\<open>fire\<close> below), so a pending timer is its due time. Nothing in the component cancels a
  timer.
\<close>

definition setTimeout :: "nat \<Rightarrow> picker \<Rightarrow> picker" where
  "setTimeout ms s = s\<lparr>timers := timers s @ [now s + ms]\<rparr>"

text \<open>
  Modelled from the spec: \<open>Logger.warning\<close> of \<open>@src/utils/logger\<close> is not among the
  sources; the component "logs a warning and proceeds", so the call records the message
  and returns.
\<close>

definition Logger_warning :: "string \<Rightarrow> picker \<Rightarrow> picker" where
  "Logger_warning msg s = emit (LoggerWarning msg) s"

subsection \<open>The handlers\<close>

definition handleClear :: "DatePickerProps \<Rightarrow> picker \<Rightarrow> picker" where
  "handleClear props s =
     (let s1 = emit PreventDefault s;
          s2 = s1\<lparr>cleared := True\<rparr>;
          s3 = emit (OnClear Null) s2
      in setTimeout 2000 s3)"

text \<open>
  \<open>handleChange\<close>: the assertion comes first and throws on \<open>null\<close>, before any state is
  touched; the result carries the state at the point where the handler returned or threw.
\<close>

definition handleChange :: "DatePickerProps \<Rightarrow> Date option \<Rightarrow> picker \<Rightarrow> outcome \<times> picker" where
  "handleChange props arg s =
     (case arg of
        None \<Rightarrow> (Threw (AssertionError ''Date should be an instance of Date''), s)
      | Some date \<Rightarrow>
          (let s1 = (if date_lt date (nullish (minDate props) (new_Date 0))
                        \<or> date_gt date (nullish (maxDate props) (new_Date 8640000000000000))
                     then s\<lparr>error := True\<rparr>
                     else s\<lparr>error := False\<rparr>)
           in (Returned,
               case onChange props of
                 Some _ \<Rightarrow> emit (OnChange (Some date)) s1
               | None \<Rightarrow> Logger_warning ''onChange is undefined'' s1)))"

text \<open>The timeout callback \<open>() => setCleared(false)\<close>.\<close>

definition fire :: "picker \<Rightarrow> picker" where
  "fire s = s\<lparr>cleared := False\<rparr>"

text \<open>The \<open>onClick\<close> handed to \<open>OutsideClickHandler\<close>: \<open>() => setCleared(false)\<close>.\<close>

definition onClick :: "picker \<Rightarrow> picker" where
  "onClick s = s\<lparr>cleared := False\<rparr>"

text \<open>
  Modelled from the spec: the component \<open>OutsideClickHandler\<close> of
  \<open>../components/reusables/outsideClickHandler\<close> is not among the sources; an "outside
  interaction" calls the \<open>onClick\<close> it was given. The source renders it only while
  \<open>cleared\<close> holds, so the interaction reaches \<open>onClick\<close> only then.
\<close>

definition outsideInteraction :: "picker \<Rightarrow> picker" where
  "outsideInteraction s = (if cleared s then onClick s else s)"

subsection \<open>What is rendered\<close>

record view =
  textField_error :: bool
  helperText :: string
  alert :: bool

definition render :: "picker \<Rightarrow> view" where
  "render s =
     \<lparr>textField_error = error s,
      helperText = (if error s then ''Date is required'' else ''''),
      alert = cleared s\<rparr>"

subsection \<open>Time and event sequences\<close>

text \<open>
  Letting \<open>dt\<close> milliseconds pass with no other event: the timers that fall due run, in the
  order they were scheduled, and leave the queue. A timer runs at its due time.
\<close>

definition elapse :: "nat \<Rightarrow> picker \<Rightarrow> picker" where
  "elapse dt s =
     (let t = now s + dt;
          due = filter (\<lambda>d. d \<le> t) (timers s);
          rest = filter (\<lambda>d. t < d) (timers s)
      in fold (\<lambda>_. fire) due (s\<lparr>now := t, timers := rest\<rparr>))"

datatype event = Change "Date option" | Clear | OutsideInteraction | Elapse nat

fun is_Change :: "event \<Rightarrow> bool" where
  "is_Change (Change _) = True"
| "is_Change _ = False"

text \<open>An exception of \<open>handleChange\<close> goes to the caller; the component lives on.\<close>

fun step :: "DatePickerProps \<Rightarrow> event \<Rightarrow> picker \<Rightarrow> picker" where
  "step props (Change arg) s = snd (handleChange props arg s)"
| "step props Clear s = handleClear props s"
| "step props OutsideInteraction s = outsideInteraction s"
| "step props (Elapse dt) s = elapse dt s"

fun run :: "DatePickerProps \<Rightarrow> event list \<Rightarrow> picker \<Rightarrow> picker" where
  "run props [] s = s"
| "run props (ev # evs) s = run props evs (step props ev s)"

text \<open>A caller that sets neither bound and no \<open>onChange\<close>.\<close>

definition bare :: DatePickerProps where
  "bare = \<lparr>onClear = (), onChange = None, label = ''Departure'', minDate = None, maxDate = None\<rparr>"

section \<open>Facts about the handlers\<close>

lemma fold_fire_cleared:
  "cleared (fold (\<lambda>_. fire) ds s) = (cleared s \<and> ds = [])"
  by (induction ds arbitrary: s) (auto simp: fire_def)

lemma fold_fire_frame:
  "error (fold (\<lambda>_. fire) ds s) = error s"
  "now (fold (\<lambda>_. fire) ds s) = now s"
  "timers (fold (\<lambda>_. fire) ds s) = timers s"
  "effects (fold (\<lambda>_. fire) ds s) = effects s"
  by (induction ds arbitrary: s) (auto simp: fire_def)

lemma elapse_cleared:
  "cleared (elapse dt s) = (cleared s \<and> (\<forall>d \<in> set (timers s). now s + dt < d))"
  by (auto simp: elapse_def Let_def fold_fire_cleared filter_empty_conv)

lemma elapse_frame:
  "error (elapse dt s) = error s"
  "now (elapse dt s) = now s + dt"
  "timers (elapse dt s) = filter (\<lambda>d. now s + dt < d) (timers s)"
  "effects (elapse dt s) = effects s"
  by (simp_all add: elapse_def Let_def fold_fire_frame)

lemma handleClear_fields:
  "error (handleClear props s) = error s"
  "cleared (handleClear props s) = True"
  "now (handleClear props s) = now s"
  "timers (handleClear props s) = timers s @ [now s + 2000]"
  "effects (handleClear props s) = effects s @ [PreventDefault, OnClear Null]"
  by (simp_all add: handleClear_def Let_def emit_def setTimeout_def)

lemma handleChange_None:
  "handleChange props None s =
     (Threw (AssertionError ''Date should be an instance of Date''), s)"
  by (simp add: handleChange_def)

lemma handleChange_Some_fields:
  "fst (handleChange props (Some d) s) = Returned"
  "error (snd (handleChange props (Some d) s)) =
     (date_lt d (nullish (minDate props) (new_Date 0))
      \<or> date_gt d (nullish (maxDate props) (new_Date 8640000000000000)))"
  "cleared (snd (handleChange props (Some d) s)) = cleared s"
  "now (snd (handleChange props (Some d) s)) = now s"
  "timers (snd (handleChange props (Some d) s)) = timers s"
  "effects (snd (handleChange props (Some d) s)) =
     effects s @ [case onChange props of
                    Some _ \<Rightarrow> OnChange (Some d)
                  | None \<Rightarrow> LoggerWarning ''onChange is undefined'']"
  by (simp_all add: handleChange_def Let_def emit_def Logger_warning_def
        split: option.splits)

lemma outsideInteraction_fields:
  "error (outsideInteraction s) = error s"
  "cleared (outsideInteraction s) = False"
  "now (outsideInteraction s) = now s"
  "timers (outsideInteraction s) = timers s"
  "effects (outsideInteraction s) = effects s"
  by (simp_all add: outsideInteraction_def onClick_def)

section \<open>The clear handler and the notification\<close>

text \<open>
  C4. Calling the clear handler sets \<open>cleared\<close> at once, calls \<open>onClear\<close> with \<open>null\<close>
  (after \<open>preventDefault\<close> on the event) and schedules one timeout due 2000 ms later, whose
  firing resets \<open>cleared\<close>: after 2000 ms the flag is false, and when no older timer is
  pending it is still true at every earlier moment.
\<close>

theorem handleClear_shows_notifies_schedules:
  "cleared (handleClear props s)
   \<and> effects (handleClear props s) = effects s @ [PreventDefault, OnClear Null]
   \<and> timers (handleClear props s) = timers s @ [now s + 2000]
   \<and> \<not> cleared (elapse 2000 (handleClear props s))
   \<and> (timers s = [] \<and> dt < 2000 \<longrightarrow> cleared (elapse dt (handleClear props s)))"
  by (simp add: handleClear_fields elapse_cleared)

theorem handleClear_shows_notifies_schedules_witness:
  "timers mount = [] \<and> (1999::nat) < 2000
   \<and> cleared (elapse 1999 (handleClear bare mount))
   \<and> \<not> cleared (elapse 2000 (handleClear bare mount))
   \<and> effects (handleClear bare mount) = [PreventDefault, OnClear Null]
   \<and> timers (handleClear bare mount) = [2000]"
  using handleClear_shows_notifies_schedules [where props = bare and s = mount and dt = 1999]
  by (simp add: mount_def)

text \<open>
  C6. The clear handler leaves \<open>error\<close> alone, and so do the timers and the dismissal:
  over any sequence of events without a change event, \<open>error\<close> keeps its value.
\<close>

theorem clear_never_touches_error:
  "error (handleClear props s) = error s
   \<and> error (elapse dt s) = error s
   \<and> ((\<forall>ev \<in> set evs. \<not> is_Change ev) \<longrightarrow> error (run props evs s) = error s)"
proof -
  have "(\<forall>ev \<in> set evs. \<not> is_Change ev) \<Longrightarrow> error (run props evs s) = error s"
  proof (induction evs arbitrary: s)
    case Nil
    then show ?case by simp
  next
    case (Cons ev evs)
    have "error (step props ev s) = error s"
      using Cons.prems
      by (cases ev) (simp_all add: handleClear_fields elapse_frame outsideInteraction_fields)
    with Cons show ?case by simp
  qed
  then show ?thesis
    by (simp add: handleClear_fields elapse_frame)
qed

theorem clear_never_touches_error_witness:
  "error (run bare [Clear, Elapse 700, Clear, Elapse 2000, Clear, OutsideInteraction]
            (mount\<lparr>error := True\<rparr>))
   \<and> \<not> error (run bare [Clear, Elapse 700, Clear, Elapse 2000, Clear, OutsideInteraction]
                mount)"
  using clear_never_touches_error
    [where evs = "[Clear, Elapse 700, Clear, Elapse 2000, Clear, OutsideInteraction]"
       and props = bare and s = "mount\<lparr>error := True\<rparr>"]
        clear_never_touches_error
    [where evs = "[Clear, Elapse 700, Clear, Elapse 2000, Clear, OutsideInteraction]"
       and props = bare and s = mount]
  by (simp add: mount_def)

text \<open>
  C7. While the notification is visible, an outside interaction resets \<open>cleared\<close> at once
  and changes nothing else; in particular it does so at any moment before the timeout of
  the clear that showed it.
\<close>

theorem outside_interaction_hides_at_once:
  "(cleared s \<longrightarrow> outsideInteraction s = s\<lparr>cleared := False\<rparr>)
   \<and> \<not> cleared (outsideInteraction s)
   \<and> \<not> alert (render (outsideInteraction s))
   \<and> \<not> cleared (run props [Clear, Elapse dt, OutsideInteraction] s)"
  by (simp add: outsideInteraction_def onClick_def render_def)

theorem outside_interaction_hides_at_once_witness:
  "cleared (elapse 700 (handleClear bare mount))
   \<and> outsideInteraction (elapse 700 (handleClear bare mount))
       = (elapse 700 (handleClear bare mount))\<lparr>cleared := False\<rparr>
   \<and> \<not> cleared (run bare [Clear, Elapse 700, OutsideInteraction] mount)"
  using outside_interaction_hides_at_once
    [where s = "elapse 700 (handleClear bare mount)" and props = bare and dt = 700]
  by (simp add: elapse_cleared handleClear_fields mount_def)

text \<open>
  C2 as stated fails: a second clear does not restart the timer. With clears at 0 ms and
  1500 ms, the notification is visible after the second clear and hidden at 2000 ms, only
  500 ms after the most recent clear, by the timeout of the first clear; the timeout of the
  second clear (due at 3500 ms) is still pending then.
\<close>

theorem second_clear_restarts_timer_counterexample:
  "cleared (run bare [Clear, Elapse 1500, Clear] mount)
   \<and> now (run bare [Clear, Elapse 1500, Clear, Elapse 500] mount) = 1500 + 500
   \<and> \<not> cleared (run bare [Clear, Elapse 1500, Clear, Elapse 500] mount)
   \<and> timers (run bare [Clear, Elapse 1500, Clear, Elapse 500] mount) = [1500 + 2000]"
  by (simp add: elapse_cleared elapse_frame handleClear_fields mount_def)

text \<open>
  C2, amended. A clear while the notification is visible cancels nothing and schedules a
  second, independent timeout. With no older timer pending and no other event, a second
  clear \<open>d < 2000\<close> ms after the first leaves the notification visible exactly until the
  first timeout fires, 2000 ms after the first clear; the second timeout stays pending
  until 2000 ms after the second clear and then runs on a flag that is already false.
\<close>

theorem second_clear_hides_at_first_timeout:
  assumes "timers s = []" and "d < 2000"
  shows "cleared (elapse e (handleClear props (elapse d (handleClear props s))))
           = (d + e < 2000)
         \<and> timers (elapse e (handleClear props (elapse d (handleClear props s))))
           = (if d + e < 2000 then [now s + 2000, now s + d + 2000]
              else if e < 2000 then [now s + d + 2000]
              else [])"
proof -
  let ?s1 = "elapse d (handleClear props s)"
  have t1: "timers ?s1 = [now s + 2000]" and n1: "now ?s1 = now s + d"
    using assms by (simp_all add: elapse_frame handleClear_fields)
  let ?s2 = "handleClear props ?s1"
  have t2: "timers ?s2 = [now s + 2000, now s + d + 2000]"
    and n2: "now ?s2 = now s + d" and c2: "cleared ?s2"
    using t1 n1 by (simp_all add: handleClear_fields)
  have "cleared (elapse e ?s2) = (d + e < 2000)"
    using t2 n2 c2 by (auto simp: elapse_cleared)
  moreover have "timers (elapse e ?s2)
      = (if d + e < 2000 then [now s + 2000, now s + d + 2000]
         else if e < 2000 then [now s + d + 2000]
         else [])"
    using t2 n2 by (auto simp: elapse_frame)
  ultimately show ?thesis by simp
qed

theorem second_clear_hides_at_first_timeout_witness:
  "timers mount = [] \<and> (1000::nat) < 2000
   \<and> cleared (elapse 999 (handleClear bare (elapse 1000 (handleClear bare mount))))
   \<and> \<not> cleared (elapse 1000 (handleClear bare (elapse 1000 (handleClear bare mount))))
   \<and> timers (elapse 1000 (handleClear bare (elapse 1000 (handleClear bare mount)))) = [3000]
   \<and> \<not> cleared (elapse 2000 (handleClear bare (elapse 1000 (handleClear bare mount))))"
  using second_clear_hides_at_first_timeout
          [where s = mount and d = 1000 and e = 999 and props = bare]
        second_clear_hides_at_first_timeout
          [where s = mount and d = 1000 and e = 1000 and props = bare]
        second_clear_hides_at_first_timeout
          [where s = mount and d = 1000 and e = 2000 and props = bare]
  by (simp add: mount_def)

section \<open>The change handler\<close>

text \<open>
  C1. After a change event with a \<open>Date\<close>, whatever bounds the caller provided, \<open>error\<close>
  holds exactly when the date is below the lower bound or above the upper bound of the
  range the handler checks (JavaScript's \<open>d < lo || d > hi\<close>, with \<open>lo\<close> being
  \<open>minDate ?? new Date(0)\<close> and \<open>hi\<close> being \<open>maxDate ?? new Date(8640000000000000)\<close>);
  for valid dates that is: its time value lies outside the closed interval of the bounds.
  The helper text rendered from the new state is "Date is required" when \<open>error\<close> holds
  and empty otherwise.
\<close>

theorem change_sets_error_iff_outside_range:
  "error (snd (handleChange props (Some d) s))
     = (date_lt d (nullish (minDate props) (new_Date 0))
        \<or> date_gt d (nullish (maxDate props) (new_Date 8640000000000000)))
   \<and> (\<forall>t a b. d = TimeValue t
          \<and> nullish (minDate props) (new_Date 0) = TimeValue a
          \<and> nullish (maxDate props) (new_Date 8640000000000000) = TimeValue b \<longrightarrow>
        error (snd (handleChange props (Some d) s)) = (t \<notin> {a..b}))
   \<and> helperText (render (snd (handleChange props (Some d) s)))
       = (if error (snd (handleChange props (Some d) s))
          then ''Date is required'' else '''')"
  by (auto simp: handleChange_Some_fields render_def)

theorem change_sets_error_iff_outside_range_witness:
  "error (snd (handleChange
          (bare\<lparr>minDate := Some (TimeValue 100), maxDate := Some (TimeValue 200)\<rparr>)
          (Some (TimeValue 201)) mount))
   \<and> helperText (render (snd (handleChange
          (bare\<lparr>minDate := Some (TimeValue 100), maxDate := Some (TimeValue 200)\<rparr>)
          (Some (TimeValue 201)) mount))) = ''Date is required''
   \<and> \<not> error (snd (handleChange
          (bare\<lparr>minDate := Some (TimeValue 100), maxDate := Some (TimeValue 200)\<rparr>)
          (Some (TimeValue 200)) (mount\<lparr>error := True\<rparr>)))
   \<and> helperText (render (snd (handleChange
          (bare\<lparr>minDate := Some (TimeValue 100), maxDate := Some (TimeValue 200)\<rparr>)
          (Some (TimeValue 200)) (mount\<lparr>error := True\<rparr>)))) = ''''
   \<and> error (snd (handleChange (bare\<lparr>maxDate := Some (TimeValue 200)\<rparr>)
          (Some (TimeValue 300)) mount))
   \<and> error (snd (handleChange (bare\<lparr>minDate := Some (TimeValue 100)\<rparr>)
          (Some (TimeValue 50)) mount))
   \<and> \<not> error (snd (handleChange (bare\<lparr>minDate := Some (TimeValue 100)\<rparr>)
          (Some (TimeValue 100)) (mount\<lparr>error := True\<rparr>)))
   \<and> \<not> error (snd (handleChange bare (Some (TimeValue 5)) (mount\<lparr>error := True\<rparr>)))"
  using change_sets_error_iff_outside_range
          [where props = "bare\<lparr>minDate := Some (TimeValue 100), maxDate := Some (TimeValue 200)\<rparr>"
             and d = "TimeValue 201" and s = mount]
        change_sets_error_iff_outside_range
          [where props = "bare\<lparr>minDate := Some (TimeValue 100), maxDate := Some (TimeValue 200)\<rparr>"
             and d = "TimeValue 200" and s = "mount\<lparr>error := True\<rparr>"]
        change_sets_error_iff_outside_range
          [where props = "bare\<lparr>maxDate := Some (TimeValue 200)\<rparr>"
             and d = "TimeValue 300" and s = mount]
        change_sets_error_iff_outside_range
          [where props = "bare\<lparr>minDate := Some (TimeValue 100)\<rparr>"
             and d = "TimeValue 50" and s = mount]
        change_sets_error_iff_outside_range
          [where props = "bare\<lparr>minDate := Some (TimeValue 100)\<rparr>"
             and d = "TimeValue 100" and s = "mount\<lparr>error := True\<rparr>"]
        change_sets_error_iff_outside_range
          [where props = bare and d = "TimeValue 5" and s = "mount\<lparr>error := True\<rparr>"]
  by (simp add: bare_def new_Date_def)

text \<open>
  C5. An argument that is not a \<open>Date\<close> instance makes the assertion fail: the handler
  throws before anything else, so the state is the one it was called in (\<open>error\<close> is not
  written) and nothing is called (the trace is unchanged, \<open>onChange\<close> included).
\<close>

theorem non_Date_aborts_change:
  assumes "\<not> instanceof_Date arg"
  shows "handleChange props arg s
           = (Threw (AssertionError ''Date should be an instance of Date''), s)
         \<and> error (step props (Change arg) s) = error s
         \<and> effects (step props (Change arg) s) = effects s"
  using assms by (cases arg) (simp_all add: handleChange_None)

theorem non_Date_aborts_change_witness:
  "\<not> instanceof_Date None
   \<and> handleChange (bare\<lparr>onChange := Some ()\<rparr>) None (mount\<lparr>error := True\<rparr>)
       = (Threw (AssertionError ''Date should be an instance of Date''), mount\<lparr>error := True\<rparr>)
   \<and> effects (step (bare\<lparr>onChange := Some ()\<rparr>) (Change None) (mount\<lparr>error := True\<rparr>)) = []"
  using non_Date_aborts_change
          [where arg = None and props = "bare\<lparr>onChange := Some ()\<rparr>"
             and s = "mount\<lparr>error := True\<rparr>"]
  by (simp add: mount_def)

text \<open>
  C8. A date below the provided \<open>minDate\<close> or above the provided \<open>maxDate\<close> does not stop
  the handler: it returns, \<open>error\<close> is set, the text field shows "Date is required", and
  a configured \<open>onChange\<close> is called with that very date.
\<close>

theorem out_of_range_still_calls_onChange:
  assumes "minDate props = Some m \<and> date_lt d m \<or> maxDate props = Some m \<and> date_gt d m"
    and "onChange props = Some cb"
  shows "fst (handleChange props (Some d) s) = Returned
         \<and> error (snd (handleChange props (Some d) s))
         \<and> textField_error (render (snd (handleChange props (Some d) s)))
         \<and> helperText (render (snd (handleChange props (Some d) s))) = ''Date is required''
         \<and> effects (snd (handleChange props (Some d) s)) = effects s @ [OnChange (Some d)]"
  using assms by (auto simp: handleChange_Some_fields render_def)

theorem out_of_range_still_calls_onChange_witness:
  "date_lt (TimeValue 99) (TimeValue 100)
   \<and> fst (handleChange
        (bare\<lparr>onChange := Some (), minDate := Some (TimeValue 100)\<rparr>)
        (Some (TimeValue 99)) mount) = Returned
   \<and> error (snd (handleChange
        (bare\<lparr>onChange := Some (), minDate := Some (TimeValue 100)\<rparr>)
        (Some (TimeValue 99)) mount))
   \<and> effects (snd (handleChange
        (bare\<lparr>onChange := Some (), minDate := Some (TimeValue 100)\<rparr>)
        (Some (TimeValue 99)) mount)) = [OnChange (Some (TimeValue 99))]"
  using out_of_range_still_calls_onChange
          [where props = "bare\<lparr>onChange := Some (), minDate := Some (TimeValue 100)\<rparr>"
             and m = "TimeValue 100" and d = "TimeValue 99" and cb = "()" and s = mount]
  by (simp add: mount_def)

text \<open>
  C9. Without an \<open>onChange\<close>, the change handler returns normally: it writes \<open>error\<close> from
  the range check and its only call is the warning "onChange is undefined". The clear
  handler does not look at \<open>onChange\<close>: it does the same with and without it, calling
  \<open>onClear\<close> with \<open>null\<close>.
\<close>

theorem missing_onChange_warns_only:
  assumes "onChange props = None"
  shows "handleChange props (Some d) s
           = (Returned,
              s\<lparr>error := date_lt d (nullish (minDate props) (new_Date 0))
                          \<or> date_gt d (nullish (maxDate props) (new_Date 8640000000000000)),
                effects := effects s @ [LoggerWarning ''onChange is undefined'']\<rparr>)
         \<and> handleClear props s = handleClear (props\<lparr>onChange := Some cb\<rparr>) s
         \<and> effects (handleClear props s) = effects s @ [PreventDefault, OnClear Null]"
  using assms
  by (simp add: handleChange_def Let_def emit_def Logger_warning_def handleClear_def
        setTimeout_def)

theorem missing_onChange_warns_only_witness:
  "onChange bare = None
   \<and> handleChange bare (Some (TimeValue (-5))) mount
       = (Returned,
          mount\<lparr>error := True, effects := [LoggerWarning ''onChange is undefined'']\<rparr>)
   \<and> handleChange bare (Some (TimeValue 5)) mount
       = (Returned,
          mount\<lparr>error := False, effects := [LoggerWarning ''onChange is undefined'']\<rparr>)
   \<and> effects (handleClear bare mount) = [PreventDefault, OnClear Null]"
  using missing_onChange_warns_only [where props = bare and d = "TimeValue (-5)" and s = mount]
        missing_onChange_warns_only [where props = bare and d = "TimeValue 5" and s = mount]
  by (simp add: bare_def mount_def new_Date_def)

text \<open>
  C10. \<open>onChange\<close> accepts \<open>Date | null\<close>, but the change handler never passes \<open>null\<close>: on
  \<open>null\<close> it throws at the assertion with the state untouched, and over any sequence of
  events the trace gains no call of \<open>onChange\<close> with \<open>null\<close>.
\<close>

theorem change_path_never_passes_null:
  "handleChange props None s
     = (Threw (AssertionError ''Date should be an instance of Date''), s)
   \<and> (OnChange None \<notin> set (effects s) \<longrightarrow>
        OnChange None \<notin> set (effects (run props evs s)))"
proof -
  have "OnChange None \<notin> set (effects s) \<Longrightarrow> OnChange None \<notin> set (effects (run props evs s))"
  proof (induction evs arbitrary: s)
    case Nil
    then show ?case by simp
  next
    case (Cons ev evs)
    have "OnChange None \<notin> set (effects (step props ev s))"
    proof (cases ev)
      case (Change arg)
      with Cons.prems show ?thesis
        by (cases arg)
          (simp_all add: handleChange_None handleChange_Some_fields split: option.splits)
    qed (use Cons.prems in
          \<open>simp_all add: handleClear_fields outsideInteraction_fields elapse_frame\<close>)
    with Cons.IH show ?case by simp
  qed
  then show ?thesis by (simp add: handleChange_None)
qed

theorem change_path_never_passes_null_witness:
  "OnChange None \<notin> set (effects mount)
   \<and> OnChange None \<notin> set (effects (run (bare\<lparr>onChange := Some ()\<rparr>)
        [Change None, Change (Some (TimeValue 5)), Clear, Change None] mount))
   \<and> effects (run (bare\<lparr>onChange := Some ()\<rparr>)
        [Change None, Change (Some (TimeValue 5)), Clear, Change None] mount)
       = [OnChange (Some (TimeValue 5)), PreventDefault, OnClear Null]"
  using change_path_never_passes_null
          [where props = "bare\<lparr>onChange := Some ()\<rparr>" and s = mount
             and evs = "[Change None, Change (Some (TimeValue 5)), Clear, Change None]"]
  by (simp add: mount_def handleChange_None handleChange_Some_fields handleClear_fields)

section \<open>Unset bounds\<close>

text \<open>
  With \<open>maxDate\<close> unset the upper bound is \<open>new Date(8640000000000000)\<close>, the latest date
  there is, and no representable date exceeds it. With \<open>minDate\<close> unset the lower bound is
  \<open>new Date(0)\<close>, the epoch: with both unset, \<open>error\<close> is set exactly for the dates before
  1 January 1970.
\<close>

lemma unset_bounds_error_iff_before_epoch:
  assumes "minDate props = None" and "maxDate props = None" and "representable d"
  shows "error (snd (handleChange props (Some d) s)) = date_lt d (TimeValue 0)
         \<and> \<not> date_gt d (new_Date 8640000000000000)"
  using assms by (cases d) (auto simp: handleChange_Some_fields new_Date_def)

text \<open>
  C3. The default lower bound is not the earliest representable date: the earliest date,
  \<open>new Date(-8640000000000000)\<close>, lies below \<open>new Date(0)\<close>. With both bounds unset, the
  valid date \<open>new Date(-1)\<close> (the last millisecond of 1969) sets \<open>error\<close>, and the text
  field shows "Date is required".
\<close>

theorem unset_minDate_flags_date_before_epoch:
  "minDate bare = None \<and> maxDate bare = None
   \<and> representable (new_Date (- 1))
   \<and> representable (new_Date (- 8640000000000000))
   \<and> date_lt (new_Date (- 8640000000000000)) (new_Date 0)
   \<and> fst (handleChange bare (Some (new_Date (- 1))) mount) = Returned
   \<and> error (snd (handleChange bare (Some (new_Date (- 1))) mount))
   \<and> helperText (render (snd (handleChange bare (Some (new_Date (- 1))) mount)))
       = ''Date is required''"
  by (simp add: bare_def new_Date_def handleChange_Some_fields render_def)

end
